theory Spec2Isabelle
  imports Complex_Main "HOL-Library.Multiset"
begin

section \<open>JavaScript values used by the components\<close>

text \<open>
  A JavaScript \<open>number\<close> is an IEEE double. The components below only compare a number
  with zero, negate it, subtract two of them to obtain a sign, and take its absolute value;
  all of these are exact on doubles, so a finite number is modelled by the real it denotes
  (both zeros are \<open>Finite 0\<close>) and the three special values are kept apart.
\<close>

datatype jsnum = Finite real | PosInfinity | NegInfinity | NaN

text \<open>\<open>value > 0\<close>: false for \<open>NaN\<close>, as every comparison with \<open>NaN\<close> is.\<close>

fun js_gt_zero :: "jsnum \<Rightarrow> bool" where
  "js_gt_zero (Finite r) = (0 < r)"
| "js_gt_zero PosInfinity = True"
| "js_gt_zero NegInfinity = False"
| "js_gt_zero NaN = False"

fun Math_abs :: "jsnum \<Rightarrow> jsnum" where
  "Math_abs (Finite r) = Finite \<bar>r\<bar>"
| "Math_abs PosInfinity = PosInfinity"
| "Math_abs NegInfinity = PosInfinity"
| "Math_abs NaN = NaN"

section \<open>TrendIndicator\<close>

datatype icon = TrendingUp | TrendingDown

datatype node = IconNode icon string | NumberNode jsnum | TextNode string

text \<open>
  The rendered \<open>div\<close>: the arguments handed to the class-name helper \<open>cn\<close> (whose
  definition is not part of the sources, so its arguments are kept as they are passed; an
  omitted \<open>className\<close> prop is \<open>None\<close>) and the children in document order.
\<close>

record trend_view =
  cn_args :: "string option list"
  children :: "node list"

definition TrendIndicator :: "jsnum \<Rightarrow> string option \<Rightarrow> trend_view" where
  "TrendIndicator v className =
     (let isPositive = js_gt_zero v;
          Icon = (if isPositive then TrendingUp else TrendingDown)
      in \<lparr> cn_args =
             [Some ''flex items-center gap-1 text-sm font-medium'',
              Some (if isPositive then ''text-success-500'' else ''text-error-500''),
              className],
           children = [IconNode Icon ''w-4 h-4'', NumberNode (Math_abs v), TextNode ''%''] \<rparr>)"

section \<open>ShareOfModelChart\<close>

text \<open>
  \<open>Object.entries(data)\<close> lists the own enumerable properties of the record as
  (brand, share) pairs in property order; that list is the input here. Shares are finite
  numbers: the record is parsed from JSON, which cannot carry \<open>NaN\<close>, and a share that
  overflows to an infinity (a literal such as \<open>1e999\<close>) is left out of the model. The
  sign of the double \<open>b - a\<close> is the sign of the real difference.

  \<open>Array.prototype.sort\<close> is a stable sort by the comparator: an element goes before
  another when the comparator is negative, and elements that compare equal keep their
  order. It is modelled by stable insertion.
\<close>

type_synonym brand_shares = "(string \<times> real) list"

fun insert_by :: "('a \<Rightarrow> 'a \<Rightarrow> real) \<Rightarrow> 'a \<Rightarrow> 'a list \<Rightarrow> 'a list" where
  "insert_by cmp x [] = [x]"
| "insert_by cmp x (y # ys) =
     (if cmp x y \<le> 0 then x # y # ys else y # insert_by cmp x ys)"

definition Array_sort :: "('a \<Rightarrow> 'a \<Rightarrow> real) \<Rightarrow> 'a list \<Rightarrow> 'a list" where
  "Array_sort cmp xs = foldr (insert_by cmp) xs []"

text \<open>The comparator of the source, \<open>([, a], [, b]) => b - a\<close>.\<close>

definition by_share_desc :: "string \<times> real \<Rightarrow> string \<times> real \<Rightarrow> real" where
  "by_share_desc x y = snd y - snd x"

definition sortedData :: "brand_shares \<Rightarrow> (string \<times> real) list" where
  "sortedData data = take 10 (Array_sort by_share_desc data)"

definition colors :: "string list" where
  "colors =
     [''bg-primary-500'', ''bg-accent-500'', ''bg-success-500'', ''bg-warning-500'',
      ''bg-error-500'', ''bg-primary-400'', ''bg-accent-400'', ''bg-success-400'',
      ''bg-warning-400'', ''bg-error-400'']"

record bar =
  brand :: string
  share :: real
  bar_color :: string

text \<open>One bar per element of \<open>sortedData\<close>, coloured by \<open>colors[index % colors.length]\<close>.\<close>

definition ShareOfModelChart :: "brand_shares \<Rightarrow> bar list" where
  "ShareOfModelChart data =
     map (\<lambda>(index, (b, s)). \<lparr> brand = b, share = s,
                               bar_color = colors ! (index mod length colors) \<rparr>)
       (enumerate 0 (sortedData data))"

definition shown :: "bar list \<Rightarrow> (string \<times> real) list" where
  "shown bars = map (\<lambda>r. (brand r, share r)) bars"

text \<open>A record of twelve brands, two of them with equal shares.\<close>

definition example_shares :: brand_shares where
  "example_shares =
     [(''a'', 5), (''b'', 30), (''c'', 1), (''d'', 12), (''e'', 7), (''f'', 2),
      (''g'', 9), (''h'', 4), (''i'', 12), (''j'', 3), (''k'', 8), (''l'', 6)]"

section \<open>MaturityIndicator\<close>

record config =
  color :: string
  label :: string
  description :: string
  percentage :: nat

definition low :: config where
  "low = \<lparr> color = ''error'', label = ''Low Maturity'',
           description = ''Category is rarely mentioned in LLM responses. High opportunity for early positioning.'',
           percentage = 33 \<rparr>"

definition medium :: config where
  "medium = \<lparr> color = ''warning'', label = ''Medium Maturity'',
           description = ''Category has moderate presence. Competition is building but opportunities remain.'',
           percentage = 66 \<rparr>"

definition high :: config where
  "high = \<lparr> color = ''success'', label = ''High Maturity'',
           description = ''Category is well-established in LLM knowledge. Focus on differentiation.'',
           percentage = 100 \<rparr>"

text \<open>The own properties of the object literal \<open>maturityConfig\<close>.\<close>

definition maturityConfig :: "(string \<times> config) list" where
  "maturityConfig = [(''low'', low), (''medium'', medium), (''high'', high)]"

text \<open>
  An object literal inherits from \<open>Object.prototype\<close>, and \<open>obj[key]\<close> walks the
  prototype chain: a key that is not an own property but names a property of
  \<open>Object.prototype\<close> reads that property, a function (for \<open>__proto__\<close>, the prototype
  object itself). These are the property names of \<open>Object.prototype\<close>.
\<close>

definition Object_prototype_keys :: "string list" where
  "Object_prototype_keys =
     [''constructor'', ''__defineGetter__'', ''__defineSetter__'', ''hasOwnProperty'',
      ''__lookupGetter__'', ''__lookupSetter__'', ''isPrototypeOf'',
      ''propertyIsEnumerable'', ''toString'', ''valueOf'', ''__proto__'',
      ''toLocaleString'']"

datatype looked_up = Undefined | Own config | Inherited string

definition get_property :: "(string \<times> config) list \<Rightarrow> string \<Rightarrow> looked_up" where
  "get_property obj key =
     (case map_of obj key of
        Some c \<Rightarrow> Own c
      | None \<Rightarrow> if key \<in> set Object_prototype_keys then Inherited key else Undefined)"

text \<open>\<open>undefined\<close> is falsy; every object and function is truthy.\<close>

fun truthy :: "looked_up \<Rightarrow> bool" where
  "truthy Undefined = False"
| "truthy (Own c) = True"
| "truthy (Inherited k) = True"

text \<open>\<open>maturityConfig[level] || maturityConfig.medium\<close>\<close>

definition select_config :: "string \<Rightarrow> looked_up" where
  "select_config level =
     (let v = get_property maturityConfig level in if truthy v then v else Own medium)"

text \<open>
  Reading a field of the selected value: a configuration has it, an inherited function or
  the prototype object has no property of these names and reads \<open>undefined\<close> (\<open>None\<close>).
\<close>

fun field :: "(config \<Rightarrow> 'a) \<Rightarrow> looked_up \<Rightarrow> 'a option" where
  "field f (Own c) = Some (f c)"
| "field f (Inherited k) = None"
| "field f Undefined = None"

text \<open>Interpolation into a template literal: \<open>undefined\<close> prints as the word.\<close>

fun interpolate :: "string option \<Rightarrow> string" where
  "interpolate (Some s) = s"
| "interpolate None = ''undefined''"

record maturity_view =
  label_text :: "string option"
  percentage_text :: "nat option"
  percentage_class :: string
  bar_width :: "nat option"
  bar_class :: string
  description_text :: "string option"

definition MaturityIndicator :: "string \<Rightarrow> maturity_view" where
  "MaturityIndicator level =
     (let config = select_config level
      in \<lparr> label_text = field label config,
           percentage_text = field percentage config,
           percentage_class = ''text-'' @ interpolate (field color config) @ ''-400 font-bold'',
           bar_width = field percentage config,
           bar_class = ''h-full bg-'' @ interpolate (field color config) @ ''-500 rounded-full'',
           description_text = field description config \<rparr>)"

text \<open>What the component renders from a configuration \<open>c\<close>.\<close>

definition view_of :: "config \<Rightarrow> maturity_view" where
  "view_of c =
     \<lparr> label_text = Some (label c),
       percentage_text = Some (percentage c),
       percentage_class = ''text-'' @ color c @ ''-400 font-bold'',
       bar_width = Some (percentage c),
       bar_class = ''h-full bg-'' @ color c @ ''-500 rounded-full'',
       description_text = Some (description c) \<rparr>"

section \<open>useProbes: query keys and the probe-results query\<close>

text \<open>
  An argument of TypeScript type \<open>string\<close>: a string, or \<open>undefined\<close> when the caller
  leaves it out.
\<close>

datatype arg = Omitted | Given string

text \<open>\<open>!!jobId\<close>: \<open>undefined\<close> and the empty string are falsy, every other string is truthy.\<close>

fun js_truthy :: "arg \<Rightarrow> bool" where
  "js_truthy Omitted = False"
| "js_truthy (Given s) = (s \<noteq> [])"

text \<open>A default parameter value (\<open>timeframe: string = '30d'\<close>) replaces \<open>undefined\<close> only.\<close>

fun or_default :: "string \<Rightarrow> arg \<Rightarrow> string" where
  "or_default d Omitted = d"
| "or_default d (Given s) = s"

fun interpolate_arg :: "arg \<Rightarrow> string" where
  "interpolate_arg Omitted = ''undefined''"
| "interpolate_arg (Given s) = s"

type_synonym queryKey = "arg list"

text \<open>
  The two queries of \<open>useProbes\<close>: \<open>listProbes\<close>, and \<open>getProbeResults(jobId, timeframe)\<close>
  with its arguments as the caller passes them.
\<close>

datatype invocation = ListProbes | GetProbeResults arg arg

text \<open>The \<open>queryKey\<close> array each of them hands to \<open>useQuery\<close>.\<close>

fun queryKey :: "invocation \<Rightarrow> queryKey" where
  "queryKey ListProbes = [Given ''probes'']"
| "queryKey (GetProbeResults jobId timeframe) =
     [Given ''probe-results'', jobId, Given (or_default ''30d'' timeframe)]"

text \<open>
  The operation an invocation stands for: its name, and the parameter values its request
  is built from (\<open>jobId\<close> and the timeframe in effect; none for the list).
\<close>

fun op_name :: "invocation \<Rightarrow> string" where
  "op_name ListProbes = ''probes''"
| "op_name (GetProbeResults jobId timeframe) = ''probe-results''"

fun op_params :: "invocation \<Rightarrow> arg list" where
  "op_params ListProbes = []"
| "op_params (GetProbeResults jobId timeframe) = [jobId, Given (or_default ''30d'' timeframe)]"

record request =
  http_method :: string
  path :: string
  params :: "(string \<times> string) list"

text \<open>
  The request the \<open>queryFn\<close> of \<open>getProbeResults\<close> sends:
  \<open>apiClient.get(`/probes/${jobId}/results`, { params: { timeframe } })\<close>.
\<close>

definition getProbeResults_queryFn :: "arg \<Rightarrow> string \<Rightarrow> request" where
  "getProbeResults_queryFn jobId timeframe =
     \<lparr> http_method = ''GET'', path = ''/probes/'' @ interpolate_arg jobId @ ''/results'',
       params = [(''timeframe'', timeframe)] \<rparr>"

section \<open>Cache Store and Query Unit\<close>

text \<open>
  Modelled from the spec: the Cache Entry of section 3, \<open>{status: idle|loading|success|error,
  data, error, lastUpdated}\<close>. The store and the hook \<open>useQuery\<close> come from the package
  \<open>@tanstack/react-query\<close>, which is not among the sources. Two fields carry what section
  4.2 says the store keeps besides: whether the entry was marked stale by an invalidation,
  and the request token of the fetch in flight.
\<close>

datatype status = Idle | Loading | Success | Error

record cache_entry =
  status :: status
  data :: "string option"
  error :: "string option"
  lastUpdated :: nat
  stale :: bool
  inflight :: "nat option"

text \<open>
  Modelled from the spec: the Cache Store of section 4.2, a keyed store from Operation Key
  to Cache Entry, with the next request token to hand out and the list of network requests
  issued so far (key, token, request), oldest first.
\<close>

record cache_store =
  entries :: "queryKey \<rightharpoonup> cache_entry"
  next_token :: nat
  issued :: "(queryKey \<times> nat \<times> request) list"

text \<open>
  Modelled from the spec: the idle entry that \<open>get\<close> creates for a key it has not seen,
  and the store at process start, with no entry and no request issued.
\<close>

definition idle_entry :: cache_entry where
  "idle_entry = \<lparr> status = Idle, data = None, error = None, lastUpdated = 0,
                  stale = False, inflight = None \<rparr>"

definition empty_store :: cache_store where
  "empty_store = \<lparr> entries = Map.empty, next_token = 0, issued = [] \<rparr>"

text \<open>
  Modelled from the spec: \<open>get(key)\<close> of section 4.2, which "returns current entry, creating
  an idle one if absent".
\<close>

definition get :: "cache_store \<Rightarrow> queryKey \<Rightarrow> cache_entry \<times> cache_store" where
  "get s key =
     (case entries s key of
        Some e \<Rightarrow> (e, s)
      | None \<Rightarrow> (idle_entry, s\<lparr> entries := (entries s)(key \<mapsto> idle_entry) \<rparr>))"

text \<open>
  Modelled from the spec: the start of a fetch in section 4.2, "when a fetch begins, the
  entry transitions idle/stale to loading and records a request token"; the request goes
  out on the network.
\<close>

definition begin_fetch :: "cache_store \<Rightarrow> queryKey \<Rightarrow> request \<Rightarrow> cache_store" where
  "begin_fetch s key fetcher =
     (let (e, s1) = get s key; t = next_token s1
      in s1\<lparr> entries := (entries s1)(key \<mapsto> e\<lparr> status := Loading, inflight := Some t \<rparr>),
             next_token := Suc t,
             issued := issued s1 @ [(key, t, fetcher)] \<rparr>)"

text \<open>
  Modelled from the spec: one invocation of \<open>useQuery(key, fetcher, {enabled})\<close> of section
  4.3. With \<open>enabled\<close> false it never triggers a fetch. With \<open>enabled\<close> true it fetches an
  entry that is idle or was marked stale; an entry already loading shares the fetch in
  flight, a successful entry is not refetched unless invalidated, and an entry in error is
  not retried automatically.
\<close>

definition useQuery :: "cache_store \<Rightarrow> queryKey \<Rightarrow> request \<Rightarrow> bool \<Rightarrow> cache_store" where
  "useQuery s key fetcher enabled =
     (let (e, s1) = get s key
      in if enabled \<and> status e \<noteq> Loading \<and> (status e = Idle \<or> stale e)
         then begin_fetch s1 key fetcher else s1)"

text \<open>
  \<open>getProbeResults(jobId, timeframe)\<close> of \<open>useProbes\<close>, one render: the query key, the
  \<open>queryFn\<close> and \<open>enabled: !!jobId\<close> are those of the source.
\<close>

definition getProbeResults :: "cache_store \<Rightarrow> arg \<Rightarrow> arg \<Rightarrow> cache_store" where
  "getProbeResults s jobId timeframe =
     useQuery s (queryKey (GetProbeResults jobId timeframe))
       (getProbeResults_queryFn jobId (or_default ''30d'' timeframe)) (js_truthy jobId)"

definition absent_or_idle :: "cache_store \<Rightarrow> queryKey \<Rightarrow> bool" where
  "absent_or_idle s key = (case entries s key of None \<Rightarrow> True | Some e \<Rightarrow> status e = Idle)"

definition is_idle :: "cache_store \<Rightarrow> queryKey \<Rightarrow> bool" where
  "is_idle s key = (case entries s key of None \<Rightarrow> False | Some e \<Rightarrow> status e = Idle)"

section \<open>Properties of TrendIndicator\<close>

text \<open>
  C8. For every number the indicator shows its absolute magnitude followed by the text
  \<open>%\<close>, and it is upward and success-coloured exactly when the number is greater than zero:
  a finite \<open>r\<close> renders \<open>\<bar>r\<bar>\<close>, upward and success-coloured if \<open>0 < r\<close>, downward and
  error-coloured if \<open>r \<le> 0\<close>; \<open>+Infinity\<close> renders \<open>Infinity\<close>, upward and
  success-coloured; \<open>-Infinity\<close> renders \<open>Infinity\<close>, downward and error-coloured; \<open>NaN\<close>
  renders \<open>NaN\<close>, downward and error-coloured. In particular zero is rendered downward and
  error-coloured and shows the number 0 followed by \<open>%\<close>.
\<close>

theorem TrendIndicator_shows_magnitude_and_sign:
  "TrendIndicator (Finite r) className =
     \<lparr> cn_args = [Some ''flex items-center gap-1 text-sm font-medium'',
                  Some (if 0 < r then ''text-success-500'' else ''text-error-500''), className],
       children = [IconNode (if 0 < r then TrendingUp else TrendingDown) ''w-4 h-4'',
                   NumberNode (Finite \<bar>r\<bar>), TextNode ''%''] \<rparr>
   \<and> (children (TrendIndicator (Finite r) className) ! 0 = IconNode TrendingUp ''w-4 h-4'')
       = (0 < r)
   \<and> (children (TrendIndicator (Finite r) className) ! 0 = IconNode TrendingDown ''w-4 h-4'')
       = (r \<le> 0)
   \<and> (cn_args (TrendIndicator (Finite r) className) ! 1 = Some ''text-success-500'') = (0 < r)
   \<and> (cn_args (TrendIndicator (Finite r) className) ! 1 = Some ''text-error-500'') = (r \<le> 0)
   \<and> TrendIndicator PosInfinity className =
       \<lparr> cn_args = [Some ''flex items-center gap-1 text-sm font-medium'',
                    Some ''text-success-500'', className],
         children = [IconNode TrendingUp ''w-4 h-4'', NumberNode PosInfinity, TextNode ''%''] \<rparr>
   \<and> TrendIndicator NegInfinity className =
       \<lparr> cn_args = [Some ''flex items-center gap-1 text-sm font-medium'',
                    Some ''text-error-500'', className],
         children = [IconNode TrendingDown ''w-4 h-4'', NumberNode PosInfinity, TextNode ''%''] \<rparr>
   \<and> TrendIndicator NaN className =
       \<lparr> cn_args = [Some ''flex items-center gap-1 text-sm font-medium'',
                    Some ''text-error-500'', className],
         children = [IconNode TrendingDown ''w-4 h-4'', NumberNode NaN, TextNode ''%''] \<rparr>
   \<and> TrendIndicator (Finite 0) className =
       \<lparr> cn_args = [Some ''flex items-center gap-1 text-sm font-medium'',
                    Some ''text-error-500'', className],
         children = [IconNode TrendingDown ''w-4 h-4'', NumberNode (Finite 0), TextNode ''%''] \<rparr>
   \<and> TrendIndicator (Finite 5) className =
       \<lparr> cn_args = [Some ''flex items-center gap-1 text-sm font-medium'',
                    Some ''text-success-500'', className],
         children = [IconNode TrendingUp ''w-4 h-4'', NumberNode (Finite 5), TextNode ''%''] \<rparr>
   \<and> TrendIndicator (Finite (- 5)) className =
       \<lparr> cn_args = [Some ''flex items-center gap-1 text-sm font-medium'',
                    Some ''text-error-500'', className],
         children = [IconNode TrendingDown ''w-4 h-4'', NumberNode (Finite 5), TextNode ''%''] \<rparr>"
  by (simp add: TrendIndicator_def Let_def not_less)

section \<open>Properties of ShareOfModelChart\<close>

lemma mset_insert_by: "mset (insert_by cmp x xs) = add_mset x (mset xs)"
  by (induction xs) simp_all

lemma mset_Array_sort: "mset (Array_sort cmp xs) = mset xs"
  by (induction xs) (simp_all add: Array_sort_def mset_insert_by)

lemma set_insert_by: "set (insert_by cmp x xs) = insert x (set xs)"
  by (induction xs) auto

lemma sorted_insert_by:
  "sorted_wrt (\<lambda>x y. snd y \<le> snd x) xs \<Longrightarrow>
   sorted_wrt (\<lambda>x y. snd y \<le> snd x) (insert_by by_share_desc x xs)"
  by (induction xs) (auto simp: by_share_desc_def set_insert_by)

lemma sorted_Array_sort:
  "sorted_wrt (\<lambda>x y. snd y \<le> snd x) (Array_sort by_share_desc xs)"
  by (induction xs) (simp_all add: Array_sort_def sorted_insert_by)

lemma shown_ShareOfModelChart: "shown (ShareOfModelChart shares) = sortedData shares"
proof -
  have "map (\<lambda>r. (brand r, share r))
          (map (\<lambda>(index, (b, s)). \<lparr> brand = b, share = s,
                  bar_color = colors ! (index mod length colors) \<rparr>) (enumerate n xs)) = xs"
    for n and xs :: "(string \<times> real) list"
    by (induction xs arbitrary: n) auto
  then show ?thesis by (simp add: shown_def ShareOfModelChart_def)
qed

text \<open>
  C9. For every \<open>brand_shares\<close> record the chart renders at most ten bars (exactly
  \<open>min 10 n\<close> for \<open>n\<close> brands); the bars are in non-increasing order of share; every bar is
  an entry of the record, none repeated; and they are the brands with the highest shares:
  no entry left out has a share above that of any bar shown.
\<close>

theorem ShareOfModelChart_top_ten:
  "length (ShareOfModelChart shares) \<le> 10
   \<and> length (ShareOfModelChart shares) = min 10 (length shares)
   \<and> sorted_wrt (\<lambda>x y. snd y \<le> snd x) (shown (ShareOfModelChart shares))
   \<and> mset (shown (ShareOfModelChart shares)) \<subseteq># mset shares
   \<and> (\<forall>x \<in># mset (shown (ShareOfModelChart shares)).
        \<forall>y \<in># mset shares - mset (shown (ShareOfModelChart shares)). snd y \<le> snd x)"
proof -
  let ?s = "Array_sort by_share_desc shares"
  have len: "length ?s = length shares"
    using mset_Array_sort[of by_share_desc shares] by (metis size_mset)
  have split: "mset shares = mset (take 10 ?s) + mset (drop 10 ?s)"
    by (metis append_take_drop_id mset_Array_sort mset_append)
  have srt: "sorted_wrt (\<lambda>x y. snd y \<le> snd x) (take 10 ?s @ drop 10 ?s)"
    by (simp add: sorted_Array_sort)
  have c1: "length (ShareOfModelChart shares) = min 10 (length shares)"
    by (simp add: ShareOfModelChart_def sortedData_def len)
  have c2: "sorted_wrt (\<lambda>x y. snd y \<le> snd x) (sortedData shares)"
    using srt unfolding sorted_wrt_append sortedData_def by blast
  have c3: "mset (sortedData shares) \<subseteq># mset shares"
    unfolding sortedData_def using split by (metis mset_subset_eq_add_left)
  have diff: "mset shares - mset (sortedData shares) = mset (drop 10 ?s)"
    unfolding sortedData_def using split by simp
  have c4: "\<forall>x \<in># mset (sortedData shares).
              \<forall>y \<in># mset shares - mset (sortedData shares). snd y \<le> snd x"
    unfolding diff using srt unfolding sorted_wrt_append sortedData_def by simp
  show ?thesis using c1 c2 c3 c4 by (simp add: shown_ShareOfModelChart)
qed

text \<open>
  On the twelve example brands the ten bars are the ten largest shares, the two brands with
  share 12 in their original order, and the two left out (\<open>f\<close> and \<open>c\<close>) lie below the
  smallest bar.
\<close>

theorem ShareOfModelChart_top_ten_witness:
  "shown (ShareOfModelChart example_shares) =
     [(''b'', 30), (''d'', 12), (''i'', 12), (''g'', 9), (''k'', 8), (''e'', 7),
      (''l'', 6), (''a'', 5), (''h'', 4), (''j'', 3)]
   \<and> (''j'', 3) \<in># mset (shown (ShareOfModelChart example_shares))
   \<and> (''f'', 2) \<in># mset example_shares - mset (shown (ShareOfModelChart example_shares))
   \<and> snd (''f'', 2::real) \<le> snd (''j'', 3::real)
   \<and> length (ShareOfModelChart example_shares) = 10"
proof -
  have ev: "shown (ShareOfModelChart example_shares) =
     [(''b'', 30), (''d'', 12), (''i'', 12), (''g'', 9), (''k'', 8), (''e'', 7),
      (''l'', 6), (''a'', 5), (''h'', 4), (''j'', 3)]"
    by (simp add: shown_ShareOfModelChart sortedData_def Array_sort_def by_share_desc_def
          example_shares_def)
  have shown_j: "(''j'', 3) \<in># mset (shown (ShareOfModelChart example_shares))"
    by (simp add: ev)
  have left_f:
    "(''f'', 2) \<in># mset example_shares - mset (shown (ShareOfModelChart example_shares))"
    unfolding ev by (simp add: example_shares_def)
  have len: "length (ShareOfModelChart example_shares) = 10"
    using ShareOfModelChart_top_ten[of example_shares] by (simp add: example_shares_def)
  from ShareOfModelChart_top_ten[of example_shares] shown_j left_f
  have "snd (''f'', 2::real) \<le> snd (''j'', 3::real)" by blast
  with ev shown_j left_f len show ?thesis by blast
qed

section \<open>Properties of MaturityIndicator\<close>

lemma MaturityIndicator_known_levels:
  "MaturityIndicator ''low'' = view_of low"
  "MaturityIndicator ''medium'' = view_of medium"
  "MaturityIndicator ''high'' = view_of high"
  by (simp_all add: MaturityIndicator_def select_config_def get_property_def maturityConfig_def
        view_of_def Let_def)

lemma known_percentages:
  "percentage low = 33" "percentage medium = 66" "percentage high = 100"
  by (simp_all add: low_def medium_def high_def)

text \<open>
  A level that is neither one of the three own keys nor a property name of
  \<open>Object.prototype\<close> reads \<open>undefined\<close> and falls back to the medium configuration.
\<close>

lemma MaturityIndicator_fallback:
  assumes "level \<notin> {''low'', ''medium'', ''high''}" and "level \<notin> set Object_prototype_keys"
  shows "MaturityIndicator level = view_of medium"
  using assms
  by (simp add: MaturityIndicator_def select_config_def get_property_def maturityConfig_def
        view_of_def Let_def)

text \<open>
  A level that names a property of \<open>Object.prototype\<close> reads that inherited value, which
  is truthy, so the fallback is not taken and every field of the view is \<open>undefined\<close>.
\<close>

lemma MaturityIndicator_inherited:
  assumes "level \<in> set Object_prototype_keys"
  shows "select_config level = Inherited level"
    and "label_text (MaturityIndicator level) = None"
    and "percentage_text (MaturityIndicator level) = None"
proof -
  from assms have "map_of maturityConfig level = None"
    by (auto simp: maturityConfig_def Object_prototype_keys_def)
  with assms show sel: "select_config level = Inherited level"
    by (simp add: select_config_def get_property_def Let_def)
  then show "label_text (MaturityIndicator level) = None"
    and "percentage_text (MaturityIndicator level) = None"
    by (simp_all add: MaturityIndicator_def Let_def)
qed

text \<open>
  C10. The claim that every string other than \<open>low\<close>, \<open>medium\<close> and \<open>high\<close> falls back
  to the medium configuration fails at the level \<open>constructor\<close>: the lookup yields the
  inherited \<open>Object\<close> function instead of \<open>undefined\<close>, the \<open>||\<close> fallback is skipped, and
  the component renders no label, no percentage and the class \<open>text-undefined-400\<close>
  rather than the medium view.
\<close>

theorem MaturityIndicator_constructor_not_medium:
  "select_config ''constructor'' = Inherited ''constructor''
   \<and> MaturityIndicator ''constructor'' \<noteq> view_of medium
   \<and> MaturityIndicator ''constructor'' =
       \<lparr> label_text = None, percentage_text = None,
         percentage_class = ''text-undefined-400 font-bold'',
         bar_width = None,
         bar_class = ''h-full bg-undefined-500 rounded-full'',
         description_text = None \<rparr>"
  by (simp add: MaturityIndicator_def select_config_def get_property_def maturityConfig_def
        Object_prototype_keys_def view_of_def Let_def)

section \<open>Properties of the query keys\<close>

text \<open>
  C7. The cache slot of a query is addressed by the \<open>queryKey\<close> it hands to \<open>useQuery\<close>.
  Two invocations hand over the same key if they have the same operation name and
  identical parameter values, and different keys if they differ in the name or in any
  parameter value. So the list of probes and the results of a probe never share a slot,
  two result queries share one exactly when job and timeframe agree, and leaving the
  timeframe out is the same as passing \<open>30d\<close>.
\<close>

theorem queryKey_eq_iff_same_operation:
  "(queryKey a = queryKey b) = (op_name a = op_name b \<and> op_params a = op_params b)
   \<and> queryKey ListProbes \<noteq> queryKey (GetProbeResults jobId timeframe)
   \<and> (queryKey (GetProbeResults jobId (Given t)) = queryKey (GetProbeResults jobId' (Given t')))
       = (jobId = jobId' \<and> t = t')
   \<and> queryKey (GetProbeResults jobId Omitted) = queryKey (GetProbeResults jobId (Given ''30d''))"
  by (cases a; cases b) auto

section \<open>Properties of the Query Unit\<close>

lemma useQuery_disabled: "useQuery s key f False = snd (get s key)"
  by (simp add: useQuery_def split: prod.splits)

lemma get_issued: "issued (snd (get s key)) = issued s"
  by (simp add: get_def split: option.splits)

lemma get_next_token: "next_token (snd (get s key)) = next_token s"
  by (simp add: get_def split: option.splits)

lemma get_idle: "absent_or_idle s key \<Longrightarrow> is_idle (snd (get s key)) key"
  by (simp add: get_def absent_or_idle_def is_idle_def idle_entry_def split: option.splits)

lemma is_idle_absent_or_idle: "is_idle s key \<Longrightarrow> absent_or_idle s key"
  by (simp add: absent_or_idle_def is_idle_def split: option.splits)

lemma disabled_iter_issued:
  "issued (((\<lambda>s. useQuery s key f False) ^^ n) s) = issued s"
  by (induction n) (simp_all add: useQuery_disabled get_issued)

lemma disabled_iter_next_token:
  "next_token (((\<lambda>s. useQuery s key f False) ^^ n) s) = next_token s"
  by (induction n) (simp_all add: useQuery_disabled get_next_token)

lemma disabled_iter_idle:
  "absent_or_idle s key \<Longrightarrow> absent_or_idle (((\<lambda>s. useQuery s key f False) ^^ n) s) key"
  by (induction n) (auto simp: useQuery_disabled dest: get_idle is_idle_absent_or_idle)

lemma disabled_iter_is_idle:
  "absent_or_idle s key \<Longrightarrow> is_idle (((\<lambda>s. useQuery s key f False) ^^ Suc n) s) key"
  using disabled_iter_idle[where s = s and key = key and f = f and n = n]
  by (simp add: useQuery_disabled get_idle)

lemma enable_fetches_once:
  assumes "absent_or_idle s key"
  shows "issued (useQuery s key f True) = issued s @ [(key, next_token s, f)]"
    and "issued (useQuery (useQuery s key f True) key f True) = issued (useQuery s key f True)"
  using assms
  by (auto simp: useQuery_def begin_fetch_def get_def absent_or_idle_def idle_entry_def Let_def
      split: option.splits)

text \<open>
  C5. However often a Query Unit is invoked with \<open>enabled = false\<close>, no request is issued;
  if its entry was absent or idle, the entry is idle afterwards. When the unit is then
  invoked with \<open>enabled = true\<close>, exactly one request is issued, for its key and carrying
  the next token, and invoking it again with \<open>enabled = true\<close> issues no second one. In
  particular \<open>getProbeResults\<close> with an absent \<open>jobId\<close> (\<open>undefined\<close> or the empty string)
  issues no request, however often it is rendered.
\<close>

theorem disabled_query_never_fetches:
  "issued (((\<lambda>s. useQuery s key f False) ^^ n) s) = issued s
   \<and> (absent_or_idle s key \<longrightarrow>
        is_idle (((\<lambda>s. useQuery s key f False) ^^ Suc n) s) key
        \<and> issued (useQuery (((\<lambda>s. useQuery s key f False) ^^ n) s) key f True)
            = issued s @ [(key, next_token s, f)]
        \<and> issued (useQuery (useQuery (((\<lambda>s. useQuery s key f False) ^^ n) s) key f True) key f True)
            = issued s @ [(key, next_token s, f)])
   \<and> (\<not> js_truthy jobId \<longrightarrow>
        issued (((\<lambda>s. getProbeResults s jobId timeframe) ^^ n) s) = issued s)"
proof -
  let ?d = "((\<lambda>s. useQuery s key f False) ^^ n) s"
  have a: "issued ?d = issued s" by (rule disabled_iter_issued)
  have b: "is_idle (((\<lambda>s. useQuery s key f False) ^^ Suc n) s) key" if "absent_or_idle s key"
    using that by (rule disabled_iter_is_idle)
  have c: "issued (useQuery ?d key f True) = issued s @ [(key, next_token s, f)]"
    and d: "issued (useQuery (useQuery ?d key f True) key f True)
            = issued s @ [(key, next_token s, f)]" if "absent_or_idle s key"
    using enable_fetches_once[OF disabled_iter_idle[OF that, where f = f and n = n], where f = f]
    by (simp_all add: disabled_iter_issued disabled_iter_next_token)
  have e: "issued (((\<lambda>s. getProbeResults s jobId timeframe) ^^ n) s) = issued s"
    if "\<not> js_truthy jobId"
    using that disabled_iter_issued[where key = "queryKey (GetProbeResults jobId timeframe)"
        and f = "getProbeResults_queryFn jobId (or_default ''30d'' timeframe)" and n = n and s = s]
    by (simp add: getProbeResults_def)
  from a b c d e show ?thesis by blast
qed

text \<open>
  On the empty store, with the key of job \<open>job1\<close> and timeframe \<open>30d\<close>: two disabled
  invocations issue nothing and leave the entry idle; enabling issues the one request
  \<open>GET /probes/job1/results?timeframe=30d\<close> with token 0; and two renders of
  \<open>getProbeResults\<close> without a \<open>jobId\<close> issue nothing.
\<close>

theorem disabled_query_never_fetches_witness:
  "absent_or_idle empty_store (queryKey (GetProbeResults (Given ''job1'') (Given ''30d'')))
   \<and> \<not> js_truthy Omitted
   \<and> issued (((\<lambda>s. useQuery s (queryKey (GetProbeResults (Given ''job1'') (Given ''30d'')))
        (getProbeResults_queryFn (Given ''job1'') ''30d'') False) ^^ 2) empty_store) = []
   \<and> is_idle (((\<lambda>s. useQuery s (queryKey (GetProbeResults (Given ''job1'') (Given ''30d'')))
        (getProbeResults_queryFn (Given ''job1'') ''30d'') False) ^^ Suc 2) empty_store)
        (queryKey (GetProbeResults (Given ''job1'') (Given ''30d'')))
   \<and> issued (useQuery (((\<lambda>s. useQuery s (queryKey (GetProbeResults (Given ''job1'') (Given ''30d'')))
        (getProbeResults_queryFn (Given ''job1'') ''30d'') False) ^^ 2) empty_store)
        (queryKey (GetProbeResults (Given ''job1'') (Given ''30d'')))
        (getProbeResults_queryFn (Given ''job1'') ''30d'') True)
       = [([Given ''probe-results'', Given ''job1'', Given ''30d''], 0,
           \<lparr> http_method = ''GET'', path = ''/probes/job1/results'',
             params = [(''timeframe'', ''30d'')] \<rparr>)]
   \<and> issued (((\<lambda>s. getProbeResults s Omitted (Given ''30d'')) ^^ 2) empty_store) = []"
proof -
  have h1: "absent_or_idle empty_store (queryKey (GetProbeResults (Given ''job1'') (Given ''30d'')))"
    by (simp add: absent_or_idle_def empty_store_def)
  have h2: "\<not> js_truthy Omitted" by simp
  from h1 h2 disabled_query_never_fetches
    [where key = "queryKey (GetProbeResults (Given ''job1'') (Given ''30d''))"
       and f = "getProbeResults_queryFn (Given ''job1'') ''30d''" and n = 2
       and s = empty_store and jobId = Omitted and timeframe = "Given ''30d''"]
  show ?thesis
    by (simp add: empty_store_def getProbeResults_queryFn_def)
qed

end
